theory Spec2Isabelle
  imports Complex_Main
begin

section \<open>Numbers of the page-flip reader\<close>

text \<open>
  The reader is a React component that comes in three files which share their render
  engine word for word: two desktop readers \<open>EbookFlipbook\<close> (one of them with touch
  handlers of its own) and the touch reader \<open>EbookFlipbookMobile\<close>.
  Page numbers and page indices are JavaScript numbers that only ever hold integers; they
  are modelled as \<open>int\<close>. Lengths, ratios, zoom factors and clock readings are JavaScript
  doubles; they are modelled as \<open>real\<close>, that is, with exact arithmetic in place of the
  IEEE rounding of each operation.
\<close>

definition js_round :: "real \<Rightarrow> int" where
  \<comment> \<open>\<open>Math.round\<close>: the nearest integer, a tie going up.\<close>
  "js_round x = \<lfloor>x + 1 / 2\<rfloor>"

section \<open>Viewport sizing\<close>

text \<open>
  \<open>targetPageSize\<close> of both variants. The desktop reader has \<open>padX = 24\<close>, \<open>padY = 16\<close>,
  \<open>controlsH = 84\<close> and chooses between one page and a two-page spread by \<open>isNarrow\<close>;
  the touch reader has \<open>padX = 8\<close>, \<open>padY = 8\<close>, \<open>controlsH = 60\<close> and always lays out one
  page. The constants and the flag are parameters here. \<open>pageRatio\<close> is \<open>number | null\<close>;
  the test \<open>!pageRatio\<close> holds for \<open>null\<close> and for \<open>0\<close>. The result \<open>{w, h}\<close> is the pair
  \<open>(w, h)\<close>, and \<open>null\<close> is \<open>None\<close>.
\<close>

definition targetPageSize ::
  "real \<Rightarrow> real \<Rightarrow> real \<Rightarrow> bool \<Rightarrow> real \<Rightarrow> real \<Rightarrow> real option \<Rightarrow> real \<Rightarrow> (real \<times> real) option"
where
  "targetPageSize padX padY controlsH isNarrow containerWidth containerHeight pageRatio viewZoom =
     (case pageRatio of
        None \<Rightarrow> None
      | Some ratio \<Rightarrow>
          if ratio = 0 then None
          else
            let availableW = max 0 (containerWidth - padX * 2);
                availableH = max 0 (containerHeight - controlsH - padY * 2)
            in if availableW \<le> 0 \<or> availableH \<le> 0 then None
               else
                 let maxWByWidth = (if isNarrow then availableW else availableW / 2);
                     maxWByHeight = (if ratio > 0 then availableH / ratio else maxWByWidth);
                     baseW = max 0 (min maxWByWidth maxWByHeight);
                     w = baseW * viewZoom;
                     h = w * ratio
                 in Some (w, h))"

definition isNarrow_desktop :: "real \<Rightarrow> bool" where
  "isNarrow_desktop containerWidth \<longleftrightarrow> containerWidth > 0 \<and> containerWidth < 768"

definition targetPageSize_desktop :: "real \<Rightarrow> real \<Rightarrow> real option \<Rightarrow> real \<Rightarrow> (real \<times> real) option" where
  "targetPageSize_desktop containerWidth containerHeight pageRatio viewZoom =
     targetPageSize 24 16 84 (isNarrow_desktop containerWidth)
       containerWidth containerHeight pageRatio viewZoom"

definition targetPageSize_mobile :: "real \<Rightarrow> real \<Rightarrow> real option \<Rightarrow> real \<Rightarrow> (real \<times> real) option" where
  "targetPageSize_mobile containerWidth containerHeight pageRatio viewZoom =
     targetPageSize 8 8 60 True containerWidth containerHeight pageRatio viewZoom"

section \<open>Zoom controls\<close>

text \<open>
  The two zoom buttons, identical in every variant:
  \<^verbatim>\<open>setViewZoom((z) => Math.max(0.7, Math.round((z - 0.1) * 10) / 10))\<close> and
  \<^verbatim>\<open>setViewZoom((z) => Math.min(2.5, Math.round((z + 0.1) * 10) / 10))\<close>.
  The state starts as \<open>useState(1.0)\<close>.
\<close>

definition onZoomOut :: "real \<Rightarrow> real" where
  "onZoomOut z = max (7 / 10) (real_of_int (js_round ((z - 1 / 10) * 10)) / 10)"

definition onZoomIn :: "real \<Rightarrow> real" where
  "onZoomIn z = min (5 / 2) (real_of_int (js_round ((z + 1 / 10) * 10)) / 10)"

datatype zoom_op = ZoomIn | ZoomOut

fun apply_zoom :: "real \<Rightarrow> zoom_op \<Rightarrow> real" where
  "apply_zoom z ZoomIn = onZoomIn z"
| "apply_zoom z ZoomOut = onZoomOut z"

definition initial_viewZoom :: real where
  "initial_viewZoom = 1"

definition zoom_after :: "zoom_op list \<Rightarrow> real" where
  "zoom_after ops = foldl apply_zoom initial_viewZoom ops"

section \<open>The wanted window of a render pass\<close>

text \<open>
  The first lines of \<open>renderWindow\<close>: the position read from \<open>pageIndexRef\<close> is clamped
  into the document, and the pages from \<open>start\<close> to \<open>end\<close> are added to the set \<open>want\<close> in
  ascending order. A JavaScript \<open>Set\<close> iterates in insertion order, so the pass visits
  the list below from left to right. The desktop reader picks the margins by \<open>isNarrow\<close>;
  the touch reader has the narrow margins written out.
\<close>

definition want_pages :: "bool \<Rightarrow> int \<Rightarrow> int \<Rightarrow> int list" where
  "want_pages isNarrow numPages pageIndexRef =
     (let current = max 0 (min (numPages - 1) pageIndexRef);
          currentPageNo = current + 1;
          start = max 1 (currentPageNo - (if isNarrow then 2 else 4));
          end = min numPages (currentPageNo + (if isNarrow then 4 else 10))
      in [start..end])"

definition want_pages_mobile :: "int \<Rightarrow> int \<Rightarrow> int list" where
  "want_pages_mobile numPages pageIndexRef =
     (let current = max 0 (min (numPages - 1) pageIndexRef);
          currentPageNo = current + 1;
          start = max 1 (currentPageNo - 2);
          end = min numPages (currentPageNo + 4)
      in [start..end])"

section \<open>Navigation\<close>

text \<open>
  \<open>navTo\<close> of the touch reader. It reads the flip widget (\<open>api\<close>, absent until the widget
  is mounted), the clock, the widget's current page index (\<open>None\<close> when the widget does
  not return a finite number), the shadow index \<open>pageIndexRef\<close> and \<open>numPages\<close>, and it
  reads and writes \<open>lastNavAtRef\<close>. The result is the list of calls it makes, in order,
  and the new value of \<open>lastNavAtRef\<close>. \<open>ScheduleRender\<close> stands for
  \<^verbatim>\<open>scheduleRenderRef.current?.()\<close>.
\<close>

datatype dir = Prev | Next

datatype nav_action = TurnToPage int | SyncAfterFlip | ScheduleRender

definition navTo ::
  "bool \<Rightarrow> real \<Rightarrow> int option \<Rightarrow> int \<Rightarrow> int \<Rightarrow> dir \<Rightarrow> real \<Rightarrow> nav_action list \<times> real"
where
  "navTo apiPresent now current pageIndexRef numPages d lastNavAt =
     (if \<not> apiPresent then ([], lastNavAt)
      else if now - lastNavAt < 240 then ([], lastNavAt)
      else
        let curIdx = (case current of Some c \<Rightarrow> c | None \<Rightarrow> pageIndexRef);
            targetRaw = (if d = Next then curIdx + 1 else curIdx - 1);
            target = max 0 (min (max 0 (numPages - 1)) targetRaw)
        in if target = curIdx then ([], now)
           else ([TurnToPage target, SyncAfterFlip, ScheduleRender], now))"








section \<open>Debounced scheduling\<close>

text \<open>
  \<open>schedule\<close> of the render effect, with the browser's timer table written out:
  \<open>setTimeout\<close> hands out a fresh positive id and files the callback under its due time,
  \<open>clearTimeout\<close> removes an id, and a timer runs its callback once, when its due time has
  come. The only callback filed here is \<^verbatim>\<open>void renderWindow()\<close>; \<open>passLog\<close> records the
  clock reading of each start of \<open>renderWindow\<close>. Browsers may run a callback later than
  its due time, never earlier; the model runs it at the due time. The test
  \<^verbatim>\<open>if (scheduleTimerRef.current)\<close> fails for \<open>null\<close> and for the id 0.
\<close>

record timers =
  nextTimerId :: nat
  pendingTimers :: "(nat \<times> real) list"
  scheduleTimerRef :: "nat option"
  passLog :: "real list"

definition clearTimeout :: "nat \<Rightarrow> timers \<Rightarrow> timers" where
  "clearTimeout tid ts = ts\<lparr>pendingTimers := filter (\<lambda>(i, due). i \<noteq> tid) (pendingTimers ts)\<rparr>"

definition setTimeout :: "real \<Rightarrow> real \<Rightarrow> timers \<Rightarrow> nat \<times> timers" where
  "setTimeout now delay ts =
     (nextTimerId ts,
      ts\<lparr>pendingTimers := pendingTimers ts @ [(nextTimerId ts, now + delay)],
         nextTimerId := nextTimerId ts + 1\<rparr>)"

definition schedule :: "bool \<Rightarrow> real \<Rightarrow> timers \<Rightarrow> timers" where
  "schedule cancelled now ts =
     (if cancelled then ts
      else
        let ts1 = (case scheduleTimerRef ts of
                     None \<Rightarrow> ts
                   | Some tid \<Rightarrow> if tid \<noteq> 0 then clearTimeout tid ts else ts)
        in case setTimeout now 160 ts1 of
             (tid, ts2) \<Rightarrow> ts2\<lparr>scheduleTimerRef := Some tid\<rparr>)"

definition advance :: "real \<Rightarrow> timers \<Rightarrow> timers" where
  \<comment> \<open>The clock reaches \<open>now\<close>: every timer due by then has run, earliest first.\<close>
  "advance now ts =
     ts\<lparr>pendingTimers := filter (\<lambda>(i, due). \<not> due \<le> now) (pendingTimers ts),
        passLog := passLog ts
                   @ sort (map snd (filter (\<lambda>(i, due). due \<le> now) (pendingTimers ts)))\<rparr>"

definition requestRenderAround :: "real \<Rightarrow> timers \<Rightarrow> timers" where
  \<comment> \<open>A request at clock reading \<open>now\<close> that reaches the \<open>schedule\<close> of the live effect run;
      the timers due by then have run before it.\<close>
  "requestRenderAround now ts = schedule False now (advance now ts)"

definition requests :: "real list \<Rightarrow> timers \<Rightarrow> timers" where
  "requests stamps ts = foldl (\<lambda>s t. requestRenderAround t s) ts stamps"

definition drain :: "timers \<Rightarrow> timers" where
  \<comment> \<open>No further request arrives: every pending timer runs.\<close>
  "drain ts = ts\<lparr>pendingTimers := [], passLog := passLog ts @ sort (map snd (pendingTimers ts))\<rparr>"

fun burst :: "real list \<Rightarrow> bool" where
  "burst [] = True"
| "burst [t] = True"
| "burst (t # u # ts) = (t \<le> u \<and> u - t < 160 \<and> burst (u # ts))"

section \<open>The render engine: shared state\<close>

text \<open>
  The render effect, \<open>waitForCanvas\<close>, \<open>renderOne\<close> and \<open>renderWindow\<close> are the same text in
  every variant. They are \<open>async\<close> functions over shared mutable refs, run by one event
  loop: code runs without interruption from one \<open>await\<close> to the next, and at an \<open>await\<close>
  any other continuation, timer or effect may run. Each function is therefore split at
  its \<open>await\<close>s into segments; a segment is a function from the shared state to the
  shared state, and a program counter says at which \<open>await\<close> a call is suspended.

  The generation key \<^verbatim>\<open>`${Math.round(size.w)}x${Math.round(size.h)}@${viewZoom.toFixed(2)}`\<close>
  is kept as the triple of the two rounded lengths and the zoom in hundredths, which two
  keys share exactly when the strings are equal.
\<close>

type_synonym size_key = "int \<times> int \<times> int"

definition currentSizeKey :: "real \<times> real \<Rightarrow> real \<Rightarrow> size_key" where
  "currentSizeKey sz viewZoom = (js_round (fst sz), js_round (snd sz), js_round (viewZoom * 100))"

text \<open>
  A canvas element, with the attributes the engine reads and writes. \<open>shown\<close> is what the
  bitmap holds: nothing, a raster of a page in progress, or the finished raster of a page,
  each raster with the generation key of the effect run that asked for it. \<open>has2d\<close> says
  whether \<^verbatim>\<open>getContext('2d')\<close> yields a context.
\<close>

datatype pixels = Blank | Partial int size_key | Painted int size_key

record canvas =
  dataset_sizeKey :: "size_key option"
  bitmap_width :: int
  bitmap_height :: int
  style_width :: "real option"
  style_height :: "real option"
  has2d :: bool
  shown :: pixels

datatype raster_error = RenderingCancelled | OtherError

datatype task_state = TaskRunning | TaskCancelled | TaskSettled

datatype view_status = StIdle | StLoading | StRendering nat int | StReady | StError string

text \<open>
  What one run of the render effect captures in its closure. \<open>run_progress\<close> tells the
  desktop readers, which report progress after every page, from the touch reader, which
  does not; the touch reader always has \<open>run_isNarrow\<close>. \<open>window.devicePixelRatio\<close> is
  taken as fixed during a run. The closure variables that change, \<open>cancelled\<close> and
  \<open>renderTasks\<close>, live in the shared state under the run's \<open>loopId\<close>.
\<close>

record effect_run =
  loopId :: nat
  run_numPages :: int
  run_size :: "real \<times> real"
  run_viewZoom :: real
  run_isNarrow :: bool
  run_progress :: bool
  run_devicePixelRatio :: real
  run_sizeKey :: size_key

text \<open>
  The refs of the component, the canvas objects (\<open>canvasHeap\<close> lists every canvas made
  so far and \<open>canvasRefs\<close> holds positions in it, so that a call which holds a canvas
  keeps writing to that canvas after React has attached another one in its place), and
  the raster tasks of the PDF library:
  a task is running until its promise settles, and \<open>cancel()\<close> on a running task makes
  its promise reject with \<open>RenderingCancelledException\<close>.
\<close>

record engine =
  renderedPages :: "int set"
  inflightPages :: "int set"
  renderLoopIdRef :: nat
  lastSizeKeyRef :: "size_key option"
  pageIndexRef :: int
  canvasRefs :: "nat option list"
  canvasHeap :: "canvas list"
  cancelled :: "nat set"
  renderTasks :: "nat \<Rightarrow> nat option list"
  taskState :: "nat \<Rightarrow> task_state"
  nextTaskId :: nat
  errorLog :: "int list"
  status :: view_status

definition fresh_canvas :: "bool \<Rightarrow> canvas" where
  "fresh_canvas ok2d =
     \<lparr>dataset_sizeKey = None, bitmap_width = 300, bitmap_height = 150,
      style_width = None, style_height = None, has2d = ok2d, shown = Blank\<rparr>"

definition canvas_get :: "engine \<Rightarrow> nat \<Rightarrow> canvas" where
  \<comment> \<open>The canvas a reference points to. Every reference handed out points into the heap.\<close>
  "canvas_get e c = (if c < length (canvasHeap e) then canvasHeap e ! c else fresh_canvas False)"

definition canvas_set :: "nat \<Rightarrow> canvas \<Rightarrow> engine \<Rightarrow> engine" where
  "canvas_set c v e = e\<lparr>canvasHeap := (canvasHeap e)[c := v]\<rparr>"

definition canvas_at :: "engine \<Rightarrow> int \<Rightarrow> nat option" where
  \<comment> \<open>\<^verbatim>\<open>canvasRefs.current[index]\<close>; beyond the array it is \<open>undefined\<close>.\<close>
  "canvas_at e index =
     (if 0 \<le> index \<and> nat index < length (canvasRefs e) then canvasRefs e ! nat index else None)"

definition surface_of :: "engine \<Rightarrow> int \<Rightarrow> pixels option" where
  \<comment> \<open>What the canvas attached to a page number holds, if one is attached.\<close>
  "surface_of e pageNo = map_option (\<lambda>c. shown (canvas_get e c)) (canvas_at e (pageNo - 1))"

section \<open>The render effect\<close>

definition changeover_canvas :: "size_key \<Rightarrow> canvas \<Rightarrow> canvas" where
  \<comment> \<open>The body of the loop over \<open>canvasRefs.current\<close>.\<close>
  "changeover_canvas key c =
     (let c1 = c\<lparr>dataset_sizeKey := Some key\<rparr>
      in if has2d c1 then c1\<lparr>shown := Blank\<rparr> else c1)"

definition blanked :: "size_key \<Rightarrow> canvas \<Rightarrow> bool" where
  \<comment> \<open>What the loop leaves of a canvas that has a 2D context.\<close>
  "blanked key c \<longleftrightarrow> has2d c \<and> shown c = Blank \<and> dataset_sizeKey c = Some key"

definition changeover_loop :: "size_key \<Rightarrow> engine \<Rightarrow> nat option \<Rightarrow> engine" where
  \<comment> \<open>One round of \<^verbatim>\<open>for (const c of canvasRefs.current)\<close>, which skips \<open>null\<close>.\<close>
  "changeover_loop key e ref =
     (case ref of
        None \<Rightarrow> e
      | Some c \<Rightarrow> canvas_set c (changeover_canvas key (canvas_get e c)) e)"

definition changeover :: "size_key \<Rightarrow> engine \<Rightarrow> engine" where
  "changeover key e =
     foldl (changeover_loop key)
       (e\<lparr>renderedPages := {}, inflightPages := {}, lastSizeKeyRef := Some key\<rparr>)
       (canvasRefs e)"

text \<open>
  The body of the render effect up to the definition of its closures. It returns the
  closure of the new run, or nothing when one of the three guards returns early. The
  effect then calls \<open>schedule()\<close>, which arms the debounce timer of the previous section.
\<close>

definition renderEffect ::
  "bool \<Rightarrow> bool \<Rightarrow> (real \<times> real) option \<Rightarrow> int \<Rightarrow> real \<Rightarrow> bool \<Rightarrow> real \<Rightarrow> engine
     \<Rightarrow> effect_run option \<times> engine"
where
  "renderEffect progress docPresent pageSize numPages viewZoom isNarrow dpr e =
     (if \<not> docPresent then (None, e)
      else case pageSize of
        None \<Rightarrow> (None, e)
      | Some sz \<Rightarrow>
          if numPages \<le> 0 then (None, e)
          else
            let l = renderLoopIdRef e + 1;
                e1 = e\<lparr>renderLoopIdRef := l,
                       renderTasks := (renderTasks e)(l := replicate (nat numPages) None)\<rparr>;
                key = currentSizeKey sz viewZoom;
                e2 = (if lastSizeKeyRef e1 \<noteq> Some key then changeover key e1 else e1)
            in (Some \<lparr>loopId = l, run_numPages = numPages, run_size = sz,
                       run_viewZoom = viewZoom, run_isNarrow = isNarrow, run_progress = progress,
                       run_devicePixelRatio = dpr, run_sizeKey = key\<rparr>, e2))"

definition cancel_task :: "engine \<Rightarrow> nat \<Rightarrow> engine" where
  "cancel_task e t =
     (if taskState e t = TaskRunning then e\<lparr>taskState := (taskState e)(t := TaskCancelled)\<rparr> else e)"

definition cleanup :: "nat \<Rightarrow> engine \<Rightarrow> engine" where
  \<comment> \<open>The function the effect returns: \<open>cancelled = true\<close>, then \<open>cancel\<close> on every task in \<open>renderTasks\<close>.\<close>
  "cleanup l e =
     foldl cancel_task (e\<lparr>cancelled := insert l (cancelled e)\<rparr>)
       (concat (map (\<lambda>t. case t of None \<Rightarrow> [] | Some i \<Rightarrow> [i]) (renderTasks e l)))"

section \<open>Rendering one page\<close>

text \<open>
  The points at which a call of \<open>renderOne\<close> can be suspended or finished:
  inside \<open>waitForCanvas\<close> at the wait for an animation frame (with the loop counter);
  at \<^verbatim>\<open>await waitForCanvas(pageNo - 1)\<close> once \<open>waitForCanvas\<close> has returned (with its result);
  at \<^verbatim>\<open>await pdfDoc.getPage(pageNo)\<close> (with the canvas held);
  at \<^verbatim>\<open>await task.promise\<close> (with the canvas and the task);
  returned; or left by an exception.
  What the outside world answers at an \<open>await\<close> is an \<open>event\<close>. A page handle says what
  \<open>getViewport\<close> reports at scale 1, whether \<open>getViewport\<close> throws, and whether the call
  \<open>page.render\<close> itself throws.
\<close>

datatype renderOne_pc =
    AwaitFrame nat
  | AwaitCanvas "nat option"
  | AwaitGetPage nat
  | AwaitTask nat nat
  | Returned
  | Thrown

record page_proxy =
  vp1_width :: real
  vp1_height :: real
  getViewport_throws :: bool
  render_throws :: "raster_error option"

datatype event =
    Frame
  | Tick
  | PageResolved page_proxy
  | PageRejected
  | TaskResolved
  | TaskRejected raster_error

definition is_cancelled :: "effect_run \<Rightarrow> engine \<Rightarrow> bool" where
  "is_cancelled r e \<longleftrightarrow> loopId r \<in> cancelled e"

definition waitForCanvas :: "effect_run \<Rightarrow> int \<Rightarrow> nat \<Rightarrow> engine \<Rightarrow> renderOne_pc" where
  \<comment> \<open>The loop of \<open>waitForCanvas\<close> from the test \<open>i < maxFrames\<close> to its next \<open>await\<close> or \<open>return\<close>.\<close>
  "waitForCanvas r index i e =
     (if \<not> i < 180 then AwaitCanvas None
      else if is_cancelled r e then AwaitCanvas None
      else if renderLoopIdRef e \<noteq> loopId r then AwaitCanvas None
      else case canvas_at e index of
             Some c \<Rightarrow> AwaitCanvas (Some c)
           | None \<Rightarrow> AwaitFrame i)"

definition inflight_delete :: "int \<Rightarrow> engine \<Rightarrow> engine" where
  "inflight_delete pageNo e = e\<lparr>inflightPages := inflightPages e - {pageNo}\<rparr>"

definition console_error :: "int \<Rightarrow> engine \<Rightarrow> engine" where
  "console_error pageNo e = e\<lparr>errorLog := errorLog e @ [pageNo]\<rparr>"

definition catch_block :: "int \<Rightarrow> raster_error \<Rightarrow> engine \<Rightarrow> engine" where
  "catch_block pageNo err e = (if err = RenderingCancelled then e else console_error pageNo e)"

definition resolution :: "real \<Rightarrow> real \<Rightarrow> real" where
  \<comment> \<open>\<open>dpr\<close>: the device pixel ratio, scaled by \<open>min(1.6, zoom)\<close>, at most 3.\<close>
  "resolution devicePixelRatio viewZoom =
     (let baseDpr = max 1 (if devicePixelRatio = 0 then 1 else devicePixelRatio)
      in min 3 (baseDpr * min (16 / 10) viewZoom))"

definition renderOne_start :: "effect_run \<Rightarrow> int \<Rightarrow> engine \<Rightarrow> renderOne_pc \<times> engine" where
  \<comment> \<open>From the call to the first \<open>await\<close>.\<close>
  "renderOne_start r pageNo e =
     (if is_cancelled r e then (Returned, e)
      else if pageNo < 1 \<or> pageNo > run_numPages r then (Returned, e)
      else if renderLoopIdRef e \<noteq> loopId r then (Returned, e)
      else if pageNo \<in> renderedPages e \<or> pageNo \<in> inflightPages e then (Returned, e)
      else
        let e1 = e\<lparr>inflightPages := insert pageNo (inflightPages e)\<rparr>
        in (waitForCanvas r (pageNo - 1) 0 e1, e1))"

definition prepare_canvas :: "effect_run \<Rightarrow> page_proxy \<Rightarrow> canvas \<Rightarrow> canvas" where
  \<comment> \<open>Sizing the canvas for the raster; assigning \<open>canvas.width\<close> or \<open>canvas.height\<close> empties the bitmap.
      A page of native width 0 is outside the model (the quotient would be \<open>Infinity\<close>).\<close>
  "prepare_canvas r page c =
     (let dpr = resolution (run_devicePixelRatio r) (run_viewZoom r);
          scale = fst (run_size r) / vp1_width page;
          viewport_width = vp1_width page * (scale * dpr);
          viewport_height = vp1_height page * (scale * dpr);
          c1 = c\<lparr>dataset_sizeKey := Some (run_sizeKey r)\<rparr>;
          nextW = \<lfloor>viewport_width\<rfloor>;
          nextH = \<lfloor>viewport_height\<rfloor>;
          c2 = (if bitmap_width c1 \<noteq> nextW then c1\<lparr>bitmap_width := nextW, shown := Blank\<rparr> else c1);
          c3 = (if bitmap_height c2 \<noteq> nextH then c2\<lparr>bitmap_height := nextH, shown := Blank\<rparr> else c2)
      in c3\<lparr>style_width := Some (fst (run_size r)), style_height := Some (snd (run_size r))\<rparr>)"

definition after_getPage ::
  "effect_run \<Rightarrow> int \<Rightarrow> nat \<Rightarrow> page_proxy \<Rightarrow> engine \<Rightarrow> renderOne_pc \<times> engine"
where
  \<comment> \<open>From the fulfilment of \<open>getPage\<close> to \<^verbatim>\<open>await task.promise\<close>.\<close>
  "after_getPage r pageNo c page e =
     (if is_cancelled r e then (Returned, inflight_delete pageNo e)
      else if getViewport_throws page then (Thrown, e)
      else
        let e1 = canvas_set c (prepare_canvas r page (canvas_get e c)) e
        in if \<not> has2d (canvas_get e1 c) then (Returned, inflight_delete pageNo e1)
           else case render_throws page of
                  Some err \<Rightarrow> (Returned, inflight_delete pageNo (catch_block pageNo err e1))
                | None \<Rightarrow>
                    let t = nextTaskId e1;
                        e2 = canvas_set c
                               ((canvas_get e1 c)\<lparr>shown := Partial pageNo (run_sizeKey r)\<rparr>) e1;
                        e3 = e2\<lparr>nextTaskId := t + 1,
                                taskState := (taskState e2)(t := TaskRunning),
                                renderTasks := (renderTasks e2)
                                  (loopId r := (renderTasks e2 (loopId r))[nat (pageNo - 1) := Some t])\<rparr>
                    in (AwaitTask c t, e3))"

definition renderOne_resume ::
  "effect_run \<Rightarrow> int \<Rightarrow> renderOne_pc \<Rightarrow> event \<Rightarrow> engine \<Rightarrow> renderOne_pc \<times> engine"
where
  \<comment> \<open>From one \<open>await\<close> to the next. An event that does not answer the \<open>await\<close> changes nothing.\<close>
  "renderOne_resume r pageNo pc ev e =
     (case (pc, ev) of
        (AwaitFrame i, Frame) \<Rightarrow> (waitForCanvas r (pageNo - 1) (i + 1) e, e)
      | (AwaitCanvas None, Tick) \<Rightarrow> (Returned, inflight_delete pageNo e)
      | (AwaitCanvas (Some c), Tick) \<Rightarrow> (AwaitGetPage c, e)
      | (AwaitGetPage c, PageRejected) \<Rightarrow> (Thrown, e)
      | (AwaitGetPage c, PageResolved page) \<Rightarrow> after_getPage r pageNo c page e
      | (AwaitTask c t, TaskResolved) \<Rightarrow>
          (Returned,
           inflight_delete pageNo
             ((canvas_set c ((canvas_get e c)\<lparr>shown := Painted pageNo (run_sizeKey r)\<rparr>) e)
                \<lparr>renderedPages := insert pageNo (renderedPages e),
                 taskState := (taskState e)(t := TaskSettled)\<rparr>))
      | (AwaitTask c t, TaskRejected err) \<Rightarrow>
          (Returned,
           inflight_delete pageNo
             (catch_block pageNo err (e\<lparr>taskState := (taskState e)(t := TaskSettled)\<rparr>)))
      | _ \<Rightarrow> (pc, e))"

section \<open>A render pass\<close>

text \<open>
  A call of \<open>renderWindow\<close> is suspended only at \<^verbatim>\<open>await renderOne(p)\<close>: it is then inside
  the call for page \<open>p\<close>, with the pages still to visit and the state of that call. When
  the call has returned, the next tick of the event loop resumes the pass at the next
  page; when it has thrown, the next tick throws out of \<open>renderWindow\<close>, which has no
  \<open>try\<close>.
\<close>

datatype pass_pc =
    InRenderOne int int "int list" renderOne_pc
  | PassReturned
  | PassThrown

definition renderWindow_finish :: "int \<Rightarrow> engine \<Rightarrow> pass_pc \<times> engine" where
  "renderWindow_finish currentPageNo e =
     (if currentPageNo \<in> renderedPages e \<or> currentPageNo + 1 \<in> renderedPages e
           \<or> currentPageNo - 1 \<in> renderedPages e
      then (PassReturned, e\<lparr>status := StReady\<rparr>)
      else (PassReturned, e))"

definition renderWindow_next :: "effect_run \<Rightarrow> int \<Rightarrow> int list \<Rightarrow> engine \<Rightarrow> pass_pc \<times> engine" where
  \<comment> \<open>The head of the loop \<^verbatim>\<open>for (const p of want)\<close>, up to the \<open>await\<close> in its body.\<close>
  "renderWindow_next r currentPageNo ps e =
     (case ps of
        [] \<Rightarrow> renderWindow_finish currentPageNo e
      | p # rest \<Rightarrow>
          if is_cancelled r e then (PassReturned, e)
          else case renderOne_start r p e of
                 (pc, e1) \<Rightarrow> (InRenderOne currentPageNo p rest pc, e1))"

definition setStatus_rendering :: "effect_run \<Rightarrow> engine \<Rightarrow> engine" where
  "setStatus_rendering r e = e\<lparr>status := StRendering (card (renderedPages e)) (run_numPages r)\<rparr>"

definition renderWindow_start :: "effect_run \<Rightarrow> engine \<Rightarrow> pass_pc \<times> engine" where
  "renderWindow_start r e =
     (let current = max 0 (min (run_numPages r - 1) (pageIndexRef e));
          currentPageNo = current + 1;
          want = want_pages (run_isNarrow r) (run_numPages r) (pageIndexRef e)
      in renderWindow_next r currentPageNo want (setStatus_rendering r e))"

definition renderWindow_resume :: "effect_run \<Rightarrow> pass_pc \<Rightarrow> event \<Rightarrow> engine \<Rightarrow> pass_pc \<times> engine" where
  "renderWindow_resume r pc ev e =
     (case pc of
        InRenderOne currentPageNo p rest Returned \<Rightarrow>
          if ev = Tick
          then renderWindow_next r currentPageNo rest
                 (if run_progress r then setStatus_rendering r e else e)
          else (pc, e)
      | InRenderOne currentPageNo p rest Thrown \<Rightarrow>
          if ev = Tick then (PassThrown, e) else (pc, e)
      | InRenderOne currentPageNo p rest pc1 \<Rightarrow>
          (case renderOne_resume r p pc1 ev e of
             (pc2, e1) \<Rightarrow> (InRenderOne currentPageNo p rest pc2, e1))
      | _ \<Rightarrow> (pc, e))"

section \<open>The reader as a transition system\<close>

text \<open>
  The whole reader: the shared state, the effect runs made so far, and the passes started
  so far, each with the closure it runs in. One \<open>action\<close> is one uninterrupted piece of
  work of the event loop:
  \<^item> \<open>Mount n ok\<close>: React mounts the flip widget with \<open>n\<close> new, empty canvases and the ref
    callbacks store them; \<open>Unmount\<close>: the ref callbacks store \<open>null\<close>;
  \<^item> \<open>OnFlip i\<close>: the widget reports page index \<open>i\<close>, stored in \<open>pageIndexRef\<close>;
  \<^item> \<open>Effect \<dots>\<close>: React runs the render effect, which it does only after the clean-up of
    the previous run;
  \<^item> \<open>Cleanup l\<close>: React runs the clean-up of the run with \<open>loopId\<close> \<open>l\<close>;
  \<^item> \<open>TimerFires l\<close>: the debounce timer armed by the \<open>schedule\<close> of run \<open>l\<close> runs
    \<open>renderWindow\<close>; the clean-up clears the timer, so this happens to a live run only;
  \<^item> \<open>Resume k ev\<close>: the \<open>await\<close> at which pass \<open>k\<close> is suspended is answered by \<open>ev\<close>.
    A raster task fulfils its promise or fails only while it is running, and rejects
    with a cancellation only after \<open>cancel()\<close>.
  An action that cannot happen in the state yields \<open>None\<close>.
\<close>

record system =
  eng :: engine
  runs :: "effect_run list"
  passes :: "(effect_run \<times> pass_pc) list"

datatype action =
    Mount nat bool
  | Unmount
  | OnFlip int
  | Effect bool bool "(real \<times> real) option" int real bool real
  | Cleanup nat
  | TimerFires nat
  | Resume nat event

definition mount :: "nat \<Rightarrow> bool \<Rightarrow> system \<Rightarrow> system" where
  "mount n ok2d s =
     s\<lparr>eng := (eng s)
          \<lparr>canvasRefs := map Some [length (canvasHeap (eng s)) ..< length (canvasHeap (eng s)) + n],
           canvasHeap := canvasHeap (eng s) @ replicate n (fresh_canvas ok2d)\<rparr>\<rparr>"

definition unmount :: "system \<Rightarrow> system" where
  "unmount s = s\<lparr>eng := (eng s)\<lparr>canvasRefs := map (\<lambda>c. None) (canvasRefs (eng s))\<rparr>\<rparr>"

fun enabled_event :: "engine \<Rightarrow> pass_pc \<Rightarrow> event \<Rightarrow> bool" where
  "enabled_event e (InRenderOne cur p rest (AwaitFrame i)) ev = (ev = Frame)"
| "enabled_event e (InRenderOne cur p rest (AwaitCanvas c)) ev = (ev = Tick)"
| "enabled_event e (InRenderOne cur p rest (AwaitGetPage c)) ev =
     (case ev of PageResolved page \<Rightarrow> True | PageRejected \<Rightarrow> True | _ \<Rightarrow> False)"
| "enabled_event e (InRenderOne cur p rest (AwaitTask c t)) ev =
     (case ev of
        TaskResolved \<Rightarrow> taskState e t = TaskRunning
      | TaskRejected RenderingCancelled \<Rightarrow> taskState e t = TaskCancelled
      | TaskRejected OtherError \<Rightarrow> taskState e t = TaskRunning
      | _ \<Rightarrow> False)"
| "enabled_event e (InRenderOne cur p rest Returned) ev = (ev = Tick)"
| "enabled_event e (InRenderOne cur p rest Thrown) ev = (ev = Tick)"
| "enabled_event e PassReturned ev = False"
| "enabled_event e PassThrown ev = False"

definition sys_step :: "action \<Rightarrow> system \<Rightarrow> system option" where
  "sys_step a s =
     (case a of
        Mount n ok2d \<Rightarrow> Some (mount n ok2d s)
      | Unmount \<Rightarrow> Some (unmount s)
      | OnFlip i \<Rightarrow> Some (s\<lparr>eng := (eng s)\<lparr>pageIndexRef := i\<rparr>\<rparr>)
      | Effect progress docPresent pageSize numPages viewZoom isNarrow dpr \<Rightarrow>
          if list_all (\<lambda>r. is_cancelled r (eng s)) (runs s)
          then (case renderEffect progress docPresent pageSize numPages viewZoom isNarrow dpr (eng s) of
                  (None, e1) \<Rightarrow> Some (s\<lparr>eng := e1\<rparr>)
                | (Some r, e1) \<Rightarrow> Some (s\<lparr>eng := e1, runs := runs s @ [r]\<rparr>))
          else None
      | Cleanup l \<Rightarrow>
          (case find (\<lambda>r. loopId r = l) (runs s) of
             None \<Rightarrow> None
           | Some r \<Rightarrow>
               if is_cancelled r (eng s) then None
               else Some (s\<lparr>eng := cleanup l (eng s)\<rparr>))
      | TimerFires l \<Rightarrow>
          (case find (\<lambda>r. loopId r = l) (runs s) of
             None \<Rightarrow> None
           | Some r \<Rightarrow>
               if is_cancelled r (eng s) then None
               else case renderWindow_start r (eng s) of
                      (pc, e1) \<Rightarrow> Some (s\<lparr>eng := e1, passes := passes s @ [(r, pc)]\<rparr>))
      | Resume k ev \<Rightarrow>
          if k < length (passes s) then
            (case passes s ! k of
               (r, pc) \<Rightarrow>
                 if enabled_event (eng s) pc ev
                 then case renderWindow_resume r pc ev (eng s) of
                        (pc1, e1) \<Rightarrow> Some (s\<lparr>eng := e1, passes := (passes s)[k := (r, pc1)]\<rparr>)
                 else None)
          else None)"

fun exec :: "action list \<Rightarrow> system \<Rightarrow> system option" where
  "exec [] s = Some s"
| "exec (a # as) s = (case sys_step a s of None \<Rightarrow> None | Some s1 \<Rightarrow> exec as s1)"

definition initial_engine :: engine where
  "initial_engine =
     \<lparr>renderedPages = {}, inflightPages = {}, renderLoopIdRef = 0, lastSizeKeyRef = None,
      pageIndexRef = 0, canvasRefs = [], canvasHeap = [],
      cancelled = {}, renderTasks = (\<lambda>l. []), taskState = (\<lambda>t. TaskSettled), nextTaskId = 0,
      errorLog = [], status = StIdle\<rparr>"

definition initial_system :: system where
  "initial_system = \<lparr>eng = initial_engine, runs = [], passes = []\<rparr>"

section \<open>The keys of the flip widget\<close>

text \<open>
  React keeps the flip widget and the canvases inside it as long as the widget's \<open>key\<close>
  stays the same, and unmounts it and mounts a new one, with new canvases, when the key
  changes. The desktop readers build the key as
  \<^verbatim>\<open>`${sizeKey ?? 'no-size'}-${isNarrow ? 'single' : 'spread'}`\<close>, the touch reader as
  \<^verbatim>\<open>`${sizeKey ?? 'no-size'}-mobile-${viewZoom.toFixed(2)}`\<close>, where \<open>sizeKey\<close> is
  \<^verbatim>\<open>`${Math.round(pageSize.w)}x${Math.round(pageSize.h)}`\<close>.
\<close>

definition sizeKey :: "(real \<times> real) option \<Rightarrow> (int \<times> int) option" where
  "sizeKey pageSize =
     (case pageSize of None \<Rightarrow> None | Some (w, h) \<Rightarrow> Some (js_round w, js_round h))"

definition flipbookKey_desktop :: "(real \<times> real) option \<Rightarrow> bool \<Rightarrow> (int \<times> int) option \<times> bool" where
  "flipbookKey_desktop pageSize isNarrow = (sizeKey pageSize, isNarrow)"

definition flipbookKey_mobile :: "(real \<times> real) option \<Rightarrow> real \<Rightarrow> (int \<times> int) option \<times> int" where
  "flipbookKey_mobile pageSize viewZoom = (sizeKey pageSize, js_round (viewZoom * 100))"

section \<open>Sample executions\<close>

definition a4 :: page_proxy where
  \<comment> \<open>An A4 page that rasterizes without trouble.\<close>
  "a4 = \<lparr>vp1_width = 595, vp1_height = 842, getViewport_throws = False, render_throws = None\<rparr>"

definition a4_ratio :: real where
  "a4_ratio = 14142 / 10000"

text \<open>
  The touch reader opens a three-page document in a 416 by 1076 container; the first pass
  starts on page 1, finds its canvas, and asks the document for the page. The document
  rejects the request.
\<close>

definition trace_getPage_fails :: "action list" where
  "trace_getPage_fails =
     [Mount 3 True,
      Effect False True (targetPageSize_mobile 416 1076 (Some a4_ratio) 1) 3 1 True 1,
      TimerFires 1,
      Resume 0 Tick,
      Resume 0 PageRejected]"

text \<open>The same, with a page handle whose \<open>getViewport\<close> throws.\<close>

definition trace_getViewport_fails :: "action list" where
  "trace_getViewport_fails =
     [Mount 3 True,
      Effect False True (targetPageSize_mobile 416 1076 (Some a4_ratio) 1) 3 1 True 1,
      TimerFires 1,
      Resume 0 Tick,
      Resume 0 (PageResolved (a4\<lparr>getViewport_throws := True\<rparr>))]"

text \<open>
  The rejected request, followed by the tick that resumes the pass; then the reader flips
  to the second page, and the pass that the flip schedules runs to its end, its rasters
  succeeding.
\<close>

definition trace_pass_aborted :: "action list" where
  "trace_pass_aborted = trace_getPage_fails @ [Resume 0 Tick, OnFlip 1, TimerFires 1]"

definition trace_second_pass :: "action list" where
  "trace_second_pass =
     trace_pass_aborted @
     [Resume 1 Tick,
      Resume 1 Tick, Resume 1 (PageResolved a4), Resume 1 TaskResolved, Resume 1 Tick,
      Resume 1 Tick, Resume 1 (PageResolved a4), Resume 1 TaskResolved, Resume 1 Tick]"

text \<open>
  The touch reader on a two-page document, its container growing from 416 to 456 to 496
  pixels in width, so that the page box and with it the generation key changes twice;
  React mounts new canvases each time, since the widget's key changes with the page box.
  Pass 0 belongs to the first generation and is waiting for page 1 of the document when
  the container grows. Pass 1 belongs to the second generation and marks page 1 in flight;
  pass 0 then gets its page, finds itself cancelled and deletes the mark. Pass 1 starts
  its raster (task 0). The reader flips to the second page, which schedules pass 2 of the
  same run; it finds page 1 in neither set, starts a second raster (task 1) and stores it
  over task 0 in \<open>renderTasks\<close>; task 1 fails, the canvas being in use, and pass 2 goes on
  to page 2. The container grows again: the clean-up cancels what \<open>renderTasks\<close> holds,
  which is task 1, and the third generation begins.
\<close>

definition trace_third_generation :: "action list" where
  "trace_third_generation =
     [Mount 2 True,
      Effect False True (targetPageSize_mobile 416 1076 (Some a4_ratio) 1) 2 1 True 1,
      TimerFires 1,
      Resume 0 Tick,
      Mount 2 True,
      Cleanup 1,
      Effect False True (targetPageSize_mobile 456 1076 (Some a4_ratio) 1) 2 1 True 1,
      TimerFires 2,
      Resume 1 Tick,
      Resume 0 (PageResolved a4),
      Resume 0 Tick,
      Resume 1 (PageResolved a4),
      OnFlip 1,
      TimerFires 2,
      Resume 2 Tick,
      Resume 2 (PageResolved a4),
      Resume 2 (TaskRejected OtherError),
      Resume 2 Tick,
      Resume 2 Tick,
      Mount 2 True,
      Cleanup 2,
      Effect False True (targetPageSize_mobile 496 1076 (Some a4_ratio) 1) 2 1 True 1]"

text \<open>Then task 0 completes, and pass 1 ends.\<close>

definition trace_stale :: "action list" where
  "trace_stale = trace_third_generation @ [Resume 1 TaskResolved, Resume 1 Tick]"

text \<open>Then the pass of the third generation starts: page 1, then page 2.\<close>

definition trace_stale_next_pass :: "action list" where
  "trace_stale_next_pass = trace_stale @ [TimerFires 3, Resume 3 Tick]"

text \<open>
  The desktop reader on a one-page document in a container 600 pixels high, rendered in
  full at a width of 760 pixels and then widened to 800 pixels. The page box is bounded by
  the height and stays the same; \<open>isNarrow\<close> changes, so the widget's key changes and React
  mounts new canvases, and the render effect runs again since \<open>isNarrow\<close> is one of its
  dependencies, and once more when \<open>pageSize\<close> is set to the recomputed, equal page box.
\<close>

definition trace_remount :: "action list" where
  "trace_remount =
     [Mount 1 True,
      Effect True True (targetPageSize_desktop 760 600 (Some a4_ratio) 1) 1 1 (isNarrow_desktop 760) 1,
      TimerFires 1,
      Resume 0 Tick,
      Resume 0 (PageResolved a4),
      Resume 0 TaskResolved,
      Resume 0 Tick,
      Mount 1 True,
      Cleanup 1,
      Effect True True (targetPageSize_desktop 800 600 (Some a4_ratio) 1) 1 1 (isNarrow_desktop 800) 1,
      Cleanup 2,
      Effect True True (targetPageSize_desktop 800 600 (Some a4_ratio) 1) 1 1 (isNarrow_desktop 800) 1,
      TimerFires 3,
      Resume 1 Tick]"

text \<open>A pass that renders page 1 of three, up to the wait for its raster.\<close>

definition trace_rendering :: "action list" where
  "trace_rendering =
     [Mount 3 True,
      Effect False True (targetPageSize_mobile 416 1076 (Some a4_ratio) 1) 3 1 True 1,
      TimerFires 1,
      Resume 0 Tick,
      Resume 0 (PageResolved a4)]"

section \<open>How one step may change the two sets\<close>

definition sets_step :: "engine \<Rightarrow> engine \<Rightarrow> bool" where
  \<comment> \<open>No page enters \<open>inflightPages\<close> that was in \<open>renderedPages\<close>; a page that enters \<open>renderedPages\<close>
      is not in \<open>inflightPages\<close> afterwards; and disjoint sets stay disjoint.\<close>
  "sets_step e e' \<longleftrightarrow>
     (inflightPages e' - inflightPages e) \<inter> renderedPages e = {} \<and>
     (renderedPages e' - renderedPages e) \<inter> inflightPages e' = {} \<and>
     (if renderedPages e \<inter> inflightPages e = {}
      then renderedPages e' \<inter> inflightPages e' = {} else True)"

section \<open>Results\<close>

subsection \<open>Zoom\<close>

lemma js_round_mono: "x \<le> y \<Longrightarrow> js_round x \<le> js_round y"
  unfolding js_round_def by (intro floor_mono) simp

lemma js_round_of_int: "js_round (real_of_int k) = k"
  unfolding js_round_def by linarith

lemma onZoomOut_bounds:
  assumes "z \<le> 5 / 2"
  shows "7 / 10 \<le> onZoomOut z \<and> onZoomOut z \<le> 5 / 2"
proof -
  have "(z - 1 / 10) * 10 \<le> real_of_int 24" using assms by simp
  then have "js_round ((z - 1 / 10) * 10) \<le> 24"
    using js_round_mono js_round_of_int by metis
  then have "real_of_int (js_round ((z - 1 / 10) * 10)) / 10 \<le> 5 / 2" by simp
  then show ?thesis unfolding onZoomOut_def by simp
qed

lemma onZoomIn_bounds:
  assumes "7 / 10 \<le> z"
  shows "7 / 10 \<le> onZoomIn z \<and> onZoomIn z \<le> 5 / 2"
proof -
  have "real_of_int 8 \<le> (z + 1 / 10) * 10" using assms by simp
  then have "8 \<le> js_round ((z + 1 / 10) * 10)"
    using js_round_mono js_round_of_int by metis
  then have "7 / 10 \<le> real_of_int (js_round ((z + 1 / 10) * 10)) / 10" by simp
  then show ?thesis unfolding onZoomIn_def by simp
qed

lemma apply_zoom_bounds:
  "7 / 10 \<le> z \<and> z \<le> 5 / 2 \<Longrightarrow> 7 / 10 \<le> apply_zoom z b \<and> apply_zoom z b \<le> 5 / 2"
  using onZoomIn_bounds [of z] onZoomOut_bounds [of z] by (cases b) simp_all

lemma foldl_apply_zoom_bounds:
  "7 / 10 \<le> z \<and> z \<le> 5 / 2 \<Longrightarrow>
     7 / 10 \<le> foldl apply_zoom z ops \<and> foldl apply_zoom z ops \<le> 5 / 2"
proof (induction ops arbitrary: z)
  case Nil
  then show ?case by simp
next
  case (Cons b ops)
  from Cons.prems have "7 / 10 \<le> apply_zoom z b \<and> apply_zoom z b \<le> 5 / 2"
    by (rule apply_zoom_bounds)
  then show ?case using Cons.IH by simp
qed

text \<open>
  C8. Starting from the initial zoom 1.0, after any finite sequence of zoom-in and
  zoom-out presses the zoom factor lies between 0.7 and 2.5. Every prefix of a sequence
  of presses is itself a sequence of presses, so the bound holds after every press.
\<close>

theorem zoom_bound_invariant:
  "7 / 10 \<le> zoom_after ops \<and> zoom_after ops \<le> 5 / 2"
  unfolding zoom_after_def initial_viewZoom_def
  by (rule foldl_apply_zoom_bounds) simp

subsection \<open>The wanted window\<close>

lemma want_pages_mobile_eq: "want_pages_mobile numPages i = want_pages True numPages i"
  by (simp add: want_pages_mobile_def want_pages_def)

lemma want_pages_clamps_position:
  "want_pages isNarrow numPages i = want_pages isNarrow numPages (max 0 (min (numPages - 1) i))"
proof -
  have "max 0 (min (numPages - 1) (max 0 (min (numPages - 1) i))) = max 0 (min (numPages - 1) i)"
    by (simp add: min_def max_def)
  then show ?thesis by (simp add: want_pages_def Let_def)
qed

text \<open>
  C2. For a document of N pages, N at least 1, and a current page index i of that
  document (0-based, so between 0 and N - 1), a pass wants exactly the pages from
  max(1, (i+1) - 4) to min(N, (i+1) + 10) in spread layout and from max(1, (i+1) - 2) to
  min(N, (i+1) + 4) in narrow layout, in ascending order; the touch reader always wants the
  narrow range. For N = 10, i = 5 in spread layout these are the pages 2 to 10.
\<close>

theorem wanted_window:
  assumes "1 \<le> N" and "0 \<le> i" and "i < N"
  shows "want_pages False N i = [max 1 ((i + 1) - 4) .. min N ((i + 1) + 10)] \<and>
         want_pages True N i = [max 1 ((i + 1) - 2) .. min N ((i + 1) + 4)] \<and>
         want_pages_mobile N i = [max 1 ((i + 1) - 2) .. min N ((i + 1) + 4)] \<and>
         set (want_pages False N i) = {max 1 ((i + 1) - 4) .. min N ((i + 1) + 10)} \<and>
         set (want_pages True N i) = {max 1 ((i + 1) - 2) .. min N ((i + 1) + 4)} \<and>
         want_pages False 10 5 = [2, 3, 4, 5, 6, 7, 8, 9, 10]"
proof -
  have "want_pages False 10 5 = [2, 3, 4, 5, 6, 7, 8, 9, 10]"
    by (simp add: want_pages_def Let_def upto.simps)
  with assms show ?thesis
    by (simp add: want_pages_def want_pages_mobile_def Let_def)
qed

theorem wanted_window_witness:
  "(1::int) \<le> 10 \<and> (0::int) \<le> 5 \<and> (5::int) < 10 \<and>
   want_pages False 10 5 = [2, 3, 4, 5, 6, 7, 8, 9, 10] \<and>
   want_pages True 10 5 = [4, 5, 6, 7, 8, 9, 10] \<and>
   want_pages_mobile 10 5 = [4, 5, 6, 7, 8, 9, 10]"
  using wanted_window [of 10 5] by simp

subsection \<open>The page box\<close>

text \<open>
  C5. With a known ratio greater than 0: availableW = max(0, containerWidth - 2 padX),
  availableH = max(0, containerHeight - controlsH - 2 padY),
  baseW = max(0, min(narrow ? availableW : availableW / 2, availableH / ratio)),
  w = baseW * zoom, h = w * ratio, and the result is null exactly when availableW <= 0 or
  availableH <= 0; with the ratio unknown the result is null. For ratio 1.4142, narrow
  layout, availableW = 400, availableH = 1000 and zoom 1.0 (the touch reader in a 416 by
  1076 container, the desktop reader in a 448 by 1116 container) the result is w = 400,
  h = 400 * 1.4142 = 565.68, which is 565.7 to one decimal.
\<close>

theorem targetPageSize_formula:
  assumes "0 < ratio"
  shows "targetPageSize padX padY controlsH isNarrow cw ch (Some ratio) zoom =
           (let availableW = max 0 (cw - padX * 2);
                availableH = max 0 (ch - controlsH - padY * 2);
                baseW = max 0 (min (if isNarrow then availableW else availableW / 2)
                                   (availableH / ratio));
                w = baseW * zoom;
                h = w * ratio
            in if availableW \<le> 0 \<or> availableH \<le> 0 then None else Some (w, h)) \<and>
         (targetPageSize padX padY controlsH isNarrow cw ch (Some ratio) zoom = None
            \<longleftrightarrow> max 0 (cw - padX * 2) \<le> 0 \<or> max 0 (ch - controlsH - padY * 2) \<le> 0) \<and>
         targetPageSize padX padY controlsH isNarrow cw ch None zoom = None \<and>
         targetPageSize_mobile 416 1076 (Some (14142 / 10000)) 1 = Some (400, 400 * (14142 / 10000)) \<and>
         targetPageSize_desktop 448 1116 (Some (14142 / 10000)) 1 = Some (400, 400 * (14142 / 10000)) \<and>
         \<bar>400 * (14142 / 10000) - 5657 / 10\<bar> < (5 / 100 :: real)"
proof -
  have 1: "targetPageSize padX padY controlsH isNarrow cw ch (Some ratio) zoom =
           (let availableW = max 0 (cw - padX * 2);
                availableH = max 0 (ch - controlsH - padY * 2);
                baseW = max 0 (min (if isNarrow then availableW else availableW / 2)
                                   (availableH / ratio));
                w = baseW * zoom;
                h = w * ratio
            in if availableW \<le> 0 \<or> availableH \<le> 0 then None else Some (w, h))"
    using assms by (simp add: targetPageSize_def Let_def)
  have 2: "targetPageSize padX padY controlsH isNarrow cw ch (Some ratio) zoom = None
            \<longleftrightarrow> max 0 (cw - padX * 2) \<le> 0 \<or> max 0 (ch - controlsH - padY * 2) \<le> 0"
    unfolding 1 by (simp add: Let_def)
  have 3: "targetPageSize padX padY controlsH isNarrow cw ch None zoom = None"
    by (simp add: targetPageSize_def)
  have 4: "targetPageSize_mobile 416 1076 (Some (14142 / 10000)) 1 = Some (400, 400 * (14142 / 10000))"
    by (simp add: targetPageSize_mobile_def targetPageSize_def Let_def)
  have 5: "targetPageSize_desktop 448 1116 (Some (14142 / 10000)) 1 = Some (400, 400 * (14142 / 10000))"
    by (simp add: targetPageSize_desktop_def isNarrow_desktop_def targetPageSize_def Let_def)
  have 6: "\<bar>400 * (14142 / 10000) - 5657 / 10\<bar> < (5 / 100 :: real)"
    by simp
  from 1 2 3 4 5 6 show ?thesis by blast
qed

theorem targetPageSize_formula_witness:
  "(0::real) < 14142 / 10000 \<and>
   targetPageSize 8 8 60 True 416 1076 (Some (14142 / 10000)) 1 = Some (400, 56568 / 100) \<and>
   targetPageSize 24 16 84 False 848 1116 (Some (14142 / 10000)) 1 = Some (400, 56568 / 100) \<and>
   targetPageSize 8 8 60 True 16 1076 (Some (14142 / 10000)) 1 = None"
  using targetPageSize_formula [of "14142 / 10000" 8 8 60 True 416 1076 1]
        targetPageSize_formula [of "14142 / 10000" 24 16 84 False 848 1116 1]
        targetPageSize_formula [of "14142 / 10000" 8 8 60 True 16 1076 1]
  by (simp add: Let_def)

subsection \<open>Navigation\<close>

text \<open>
  C10. In the touch reader, with the widget present and the duplicate guard passed, for a
  current index c between 0 and numPages - 1 (reported by the widget, or taken from
  \<open>pageIndexRef\<close> when the widget reports none) the target is c + 1 or c - 1 clamped into
  that range; when the target equals c (next on the last page, previous on the first) no
  call is made, neither \<open>turnToPage\<close> nor the render schedule, and the clock reading is
  still stored as the time of the last navigation.
\<close>

theorem navTo_boundary:
  assumes "0 \<le> c" and "c \<le> numPages - 1" and "240 \<le> now - lastNavAt"
  shows "navTo True now (Some c) shadow numPages d lastNavAt =
           (let target = max 0 (min (numPages - 1) (if d = Next then c + 1 else c - 1))
            in (if target = c then [] else [TurnToPage target, SyncAfterFlip, ScheduleRender], now)) \<and>
         navTo True now None c numPages d lastNavAt =
           navTo True now (Some c) shadow numPages d lastNavAt \<and>
         navTo True now (Some (numPages - 1)) shadow numPages Next lastNavAt = ([], now) \<and>
         navTo True now (Some 0) shadow numPages Prev lastNavAt = ([], now)"
  using assms by (auto simp add: navTo_def Let_def)

theorem navTo_boundary_witness:
  "(0::int) \<le> 4 \<and> (4::int) \<le> 5 - 1 \<and> (240::real) \<le> 1000 - 0 \<and>
   navTo True 1000 (Some 4) 0 5 Next 0 = ([], 1000) \<and>
   navTo True 1000 (Some 0) 0 5 Prev 0 = ([], 1000) \<and>
   navTo True 1000 (Some 4) 0 5 Prev 0 = ([TurnToPage 3, SyncAfterFlip, ScheduleRender], 1000)"
  using navTo_boundary [of 4 5 1000 0 0 Next] navTo_boundary [of 4 5 1000 0 0 Prev]
  by (simp add: Let_def)




subsection \<open>Debounce\<close>

lemma requestRenderAround_rearms:
  assumes "pendingTimers ts = [(i, t + 160)]" and "scheduleTimerRef ts = Some i" and "0 < i"
    and "i < nextTimerId ts" and "t \<le> u" and "u - t < 160"
  shows "pendingTimers (requestRenderAround u ts) = [(nextTimerId ts, u + 160)] \<and>
         scheduleTimerRef (requestRenderAround u ts) = Some (nextTimerId ts) \<and>
         nextTimerId (requestRenderAround u ts) = nextTimerId ts + 1 \<and>
         passLog (requestRenderAround u ts) = passLog ts"
  using assms
  by (simp add: requestRenderAround_def schedule_def advance_def setTimeout_def clearTimeout_def)

lemma requestRenderAround_arms:
  assumes "pendingTimers ts = []" and "0 < nextTimerId ts"
  shows "pendingTimers (requestRenderAround u ts) = [(nextTimerId ts, u + 160)] \<and>
         scheduleTimerRef (requestRenderAround u ts) = Some (nextTimerId ts) \<and>
         nextTimerId (requestRenderAround u ts) = nextTimerId ts + 1 \<and>
         passLog (requestRenderAround u ts) = passLog ts"
  using assms
  by (auto simp add: requestRenderAround_def schedule_def advance_def setTimeout_def
        clearTimeout_def split: option.splits)

lemma requests_keep_one_timer:
  assumes "burst (t # us)" and "pendingTimers ts = [(i, t + 160)]"
    and "scheduleTimerRef ts = Some i" and "0 < i" and "i < nextTimerId ts"
  shows "\<exists>j. pendingTimers (requests us ts) = [(j, last (t # us) + 160)]
            \<and> passLog (requests us ts) = passLog ts"
  using assms
proof (induction us arbitrary: t ts i)
  case Nil
  then show ?case by (simp add: requests_def)
next
  case (Cons u us)
  from Cons.prems(1) have tu: "t \<le> u" "u - t < 160" and b: "burst (u # us)"
    by simp_all
  let ?ts = "requestRenderAround u ts"
  note s = requestRenderAround_rearms [OF Cons.prems(2,3,4,5) tu]
  have "\<exists>j. pendingTimers (requests us ?ts) = [(j, last (u # us) + 160)]
            \<and> passLog (requests us ?ts) = passLog ?ts"
  proof (rule Cons.IH [OF b, where i = "nextTimerId ts"])
    show "pendingTimers ?ts = [(nextTimerId ts, u + 160)]" using s by simp
    show "scheduleTimerRef ?ts = Some (nextTimerId ts)" using s by simp
    show "0 < nextTimerId ts" using Cons.prems(4,5) by simp
    show "nextTimerId ts < nextTimerId ?ts" using s by simp
  qed
  then show ?case using s by (simp add: requests_def)
qed

text \<open>
  C6. A burst of N requests, N at least 1, each less than 160 ms after the one before,
  reaching the \<open>schedule\<close> of a live effect run while no timer is pending, starts exactly
  one render pass, 160 ms after the last request of the burst: each request clears the
  pending timer and arms a new one.
\<close>

theorem debounce_one_pass:
  assumes "us \<noteq> []" and "burst us" and "pendingTimers ts = []" and "0 < nextTimerId ts"
  shows "passLog (drain (requests us ts)) = passLog ts @ [last us + 160]"
proof -
  from assms(1) obtain t rest where us: "us = t # rest" by (cases us) auto
  let ?ts = "requestRenderAround t ts"
  note a = requestRenderAround_arms [OF assms(3,4), of t]
  have "\<exists>j. pendingTimers (requests rest ?ts) = [(j, last (t # rest) + 160)]
            \<and> passLog (requests rest ?ts) = passLog ?ts"
  proof (rule requests_keep_one_timer [where i = "nextTimerId ts"])
    show "burst (t # rest)" using assms(2) us by simp
    show "pendingTimers ?ts = [(nextTimerId ts, t + 160)]" using a by simp
    show "scheduleTimerRef ?ts = Some (nextTimerId ts)" using a by simp
    show "0 < nextTimerId ts" by (rule assms(4))
    show "nextTimerId ts < nextTimerId ?ts" using a by simp
  qed
  then obtain j where "pendingTimers (requests rest ?ts) = [(j, last (t # rest) + 160)]"
    and "passLog (requests rest ?ts) = passLog ts" using a by auto
  moreover have "requests us ts = requests rest ?ts" by (simp add: us requests_def)
  ultimately show ?thesis by (simp add: drain_def us)
qed

theorem debounce_one_pass_witness:
  "[0, 100, 250, 300] \<noteq> ([] :: real list) \<and> burst [0, 100, 250, 300] \<and>
   passLog (drain (requests [0, 100, 250, 300]
     \<lparr>nextTimerId = 1, pendingTimers = [], scheduleTimerRef = None, passLog = []\<rparr>)) = [460]"
  using debounce_one_pass [of "[0, 100, 250, 300]"
          "\<lparr>nextTimerId = 1, pendingTimers = [], scheduleTimerRef = None, passLog = []\<rparr>"]
  by simp

subsection \<open>The two sets under every step\<close>

lemma canvas_set_sets [simp]:
  "renderedPages (canvas_set c v e) = renderedPages e"
  "inflightPages (canvas_set c v e) = inflightPages e"
  "lastSizeKeyRef (canvas_set c v e) = lastSizeKeyRef e"
  "canvasRefs (canvas_set c v e) = canvasRefs e"
  by (simp_all add: canvas_set_def)

lemma foldl_changeover_loop_sets [simp]:
  "renderedPages (foldl (changeover_loop key) e refs) = renderedPages e"
  "inflightPages (foldl (changeover_loop key) e refs) = inflightPages e"
  "lastSizeKeyRef (foldl (changeover_loop key) e refs) = lastSizeKeyRef e"
  by (induction refs arbitrary: e) (simp_all add: changeover_loop_def split: option.splits)

lemma changeover_sets [simp]:
  "renderedPages (changeover key e) = {}"
  "inflightPages (changeover key e) = {}"
  "lastSizeKeyRef (changeover key e) = Some key"
  by (simp_all add: changeover_def)

lemma sets_step_same:
  "renderedPages e' = renderedPages e \<Longrightarrow> inflightPages e' = inflightPages e \<Longrightarrow> sets_step e e'"
  by (auto simp: sets_step_def)

lemma renderOne_start_sets:
  "renderOne_start r p e = (pc, e') \<Longrightarrow> sets_step e e'"
  by (auto simp: renderOne_start_def sets_step_def Let_def split: if_splits)

lemma after_getPage_sets:
  "after_getPage r p c page e = (pc, e') \<Longrightarrow>
     renderedPages e' = renderedPages e \<and> inflightPages e' \<subseteq> inflightPages e"
  by (auto simp: after_getPage_def inflight_delete_def catch_block_def console_error_def Let_def
           split: if_splits option.splits)

lemma renderOne_resume_sets:
  "renderOne_resume r p pc ev e = (pc', e') \<Longrightarrow> sets_step e e'"
  unfolding renderOne_resume_def
  by (auto simp: sets_step_def inflight_delete_def catch_block_def console_error_def
           dest!: after_getPage_sets
           split: renderOne_pc.splits event.splits option.splits if_splits)

lemma renderWindow_next_sets:
  "renderWindow_next r cur ps e = (pc, e') \<Longrightarrow> sets_step e e'"
  by (auto simp: renderWindow_next_def renderWindow_finish_def sets_step_same
           dest: renderOne_start_sets split: list.splits if_splits prod.splits)

lemma sets_step_status:
  "sets_step (setStatus_rendering r e) e' \<Longrightarrow> sets_step e e'"
  by (simp add: sets_step_def setStatus_rendering_def)

lemma renderWindow_start_sets:
  "renderWindow_start r e = (pc, e') \<Longrightarrow> sets_step e e'"
  by (auto simp: renderWindow_start_def Let_def dest!: renderWindow_next_sets
           intro: sets_step_status)

lemma renderWindow_resume_sets:
  "renderWindow_resume r pc ev e = (pc', e') \<Longrightarrow> sets_step e e'"
  unfolding renderWindow_resume_def
  by (auto simp: sets_step_same dest!: renderWindow_next_sets renderOne_resume_sets
           intro: sets_step_status
           split: pass_pc.splits renderOne_pc.splits if_splits prod.splits)

lemma foldl_cancel_task_sets:
  "renderedPages (foldl cancel_task e ts) = renderedPages e \<and>
   inflightPages (foldl cancel_task e ts) = inflightPages e"
  by (induction ts arbitrary: e) (simp_all add: cancel_task_def)

lemma cleanup_sets: "sets_step e (cleanup l e)"
  by (rule sets_step_same) (simp_all add: cleanup_def foldl_cancel_task_sets)

lemma renderEffect_sets:
  "renderEffect pr present ps n z narrow dpr e = (ro, e') \<Longrightarrow> sets_step e e'"
  by (auto simp: renderEffect_def sets_step_def Let_def split: if_splits option.splits)

lemma sys_step_sets:
  "sys_step a s = Some s' \<Longrightarrow> sets_step (eng s) (eng s')"
  unfolding sys_step_def
  by (cases a)
     (auto simp: mount_def unmount_def sets_step_same cleanup_sets
           dest: renderEffect_sets renderWindow_start_sets renderWindow_resume_sets
           split: option.splits if_splits prod.splits)

lemma exec_disjoint:
  "exec acts s = Some s' \<Longrightarrow> renderedPages (eng s) \<inter> inflightPages (eng s) = {} \<Longrightarrow>
     renderedPages (eng s') \<inter> inflightPages (eng s') = {}"
proof (induction acts arbitrary: s)
  case Nil
  then show ?case by simp
next
  case (Cons a acts)
  from Cons.prems(1) obtain s1 where a: "sys_step a s = Some s1" and r: "exec acts s1 = Some s'"
    by (auto split: option.splits)
  from sys_step_sets [OF a] Cons.prems(2)
  have "renderedPages (eng s1) \<inter> inflightPages (eng s1) = {}"
    by (simp add: sets_step_def)
  with Cons.IH [OF r] show ?case .
qed

lemma exec_append:
  "exec (as @ bs) s = (case exec as s of None \<Rightarrow> None | Some s1 \<Rightarrow> exec bs s1)"
  by (induction as arbitrary: s) (simp_all split: option.splits)

text \<open>
  C7. In every state the reader can reach, that is, between any two uninterrupted pieces
  of work of the event loop, no page number is in both \<open>renderedPages\<close> and
  \<open>inflightPages\<close>. In every step from such a state, a page that enters \<open>inflightPages\<close>
  was in neither set before, and a page that enters \<open>renderedPages\<close> is not in
  \<open>inflightPages\<close> after the step.
\<close>

theorem render_sets_disjoint:
  assumes "exec acts initial_system = Some s" and "sys_step a s = Some s'"
  shows "renderedPages (eng s) \<inter> inflightPages (eng s) = {} \<and>
         renderedPages (eng s') \<inter> inflightPages (eng s') = {} \<and>
         (inflightPages (eng s') - inflightPages (eng s))
            \<inter> (renderedPages (eng s) \<union> inflightPages (eng s)) = {} \<and>
         (renderedPages (eng s') - renderedPages (eng s)) \<inter> inflightPages (eng s') = {}"
proof -
  have init: "renderedPages (eng initial_system) \<inter> inflightPages (eng initial_system) = {}"
    by (simp add: initial_system_def initial_engine_def)
  have d: "renderedPages (eng s) \<inter> inflightPages (eng s) = {}"
    by (rule exec_disjoint [OF assms(1) init])
  have st: "sets_step (eng s) (eng s')"
    by (rule sys_step_sets [OF assms(2)])
  from d st show ?thesis
    unfolding sets_step_def by auto
qed

theorem render_sets_disjoint_witness:
  "\<exists>s s'. exec trace_rendering initial_system = Some s \<and>
           sys_step (Resume 0 TaskResolved) s = Some s' \<and>
           renderedPages (eng s) = {} \<and> inflightPages (eng s) = {1} \<and>
           renderedPages (eng s') = {1} \<and> inflightPages (eng s') = {} \<and>
           renderedPages (eng s') \<inter> inflightPages (eng s') = {}"
proof -
  have "map_option (\<lambda>s. (renderedPages (eng s), inflightPages (eng s)))
          (exec trace_rendering initial_system) = Some ({}, {1})"
    by code_simp
  then obtain s where 1: "exec trace_rendering initial_system = Some s"
    and 3: "renderedPages (eng s) = {}" "inflightPages (eng s) = {1}"
    by (cases "exec trace_rendering initial_system") auto
  have "map_option (\<lambda>s. (renderedPages (eng s), inflightPages (eng s)))
          (exec (trace_rendering @ [Resume 0 TaskResolved]) initial_system) = Some ({1}, {})"
    by code_simp
  then obtain s' where 2: "sys_step (Resume 0 TaskResolved) s = Some s'"
    and 4: "renderedPages (eng s') = {1}" "inflightPages (eng s') = {}"
    unfolding exec_append 1
    by (cases "sys_step (Resume 0 TaskResolved) s") auto
  from render_sets_disjoint [OF 1 2] have "renderedPages (eng s') \<inter> inflightPages (eng s') = {}"
    by blast
  with 1 2 3 4 show ?thesis by blast
qed

subsection \<open>Leaving \<open>renderOne\<close>\<close>

lemma after_getPage_returned:
  "after_getPage r p c page e = (Returned, e') \<Longrightarrow> p \<notin> inflightPages e'"
  by (auto simp: after_getPage_def inflight_delete_def Let_def split: if_splits option.splits)

lemma waitForCanvas_not_finished:
  "waitForCanvas r index i e \<noteq> Returned \<and> waitForCanvas r index i e \<noteq> Thrown"
  by (simp add: waitForCanvas_def split: option.splits)

text \<open>
  Every resumption that makes \<open>renderOne\<close> return has removed the page from
  \<open>inflightPages\<close>: the surface that never came, the cancellation found after \<open>getPage\<close>, the
  missing 2D context, the raster that completed, was cancelled or failed.
\<close>

lemma renderOne_return_clears_inflight:
  assumes "renderOne_resume r p pc ev e = (Returned, e')" and "pc \<noteq> Returned"
  shows "p \<notin> inflightPages e'"
  using assms waitForCanvas_not_finished [of r "p - 1" _ e]
  unfolding renderOne_resume_def
  by (auto simp: inflight_delete_def dest: after_getPage_returned
           split: renderOne_pc.splits event.splits option.splits)

text \<open>
  A resumption that makes \<open>renderOne\<close> throw leaves the shared state as it was, the mark in
  \<open>inflightPages\<close> included.
\<close>

lemma renderOne_throw_keeps_state:
  assumes "renderOne_resume r p pc ev e = (Thrown, e')" and "pc \<noteq> Thrown"
  shows "e' = e"
  using assms waitForCanvas_not_finished [of r "p - 1" _ e]
  unfolding renderOne_resume_def
  by (auto simp: after_getPage_def Let_def
           split: renderOne_pc.splits event.splits option.splits if_splits)

text \<open>
  A raster that fails is caught inside \<open>renderOne\<close>: the pass stays alive, the page is
  not marked rendered, and the next tick moves the pass to the next page.
\<close>

lemma raster_failure_is_isolated:
  "renderWindow_resume r (InRenderOne cur p rest (AwaitTask c t)) (TaskRejected err) e
     = (InRenderOne cur p rest Returned,
        inflight_delete p (catch_block p err (e\<lparr>taskState := (taskState e)(t := TaskSettled)\<rparr>)))"
  by (simp add: renderWindow_resume_def renderOne_resume_def)

text \<open>
  C3, where the code falls short. \<open>getPage\<close> is awaited, and \<open>getViewport\<close> is called,
  before the \<open>try\<close> whose \<open>finally\<close> removes the page from \<open>inflightPages\<close>. In the sample
  executions the request for page 1 is rejected, or \<open>getViewport\<close> throws: \<open>renderOne\<close> is
  left by the exception and page 1 is still in \<open>inflightPages\<close>.
\<close>

theorem getPage_rejection_leaves_inflight:
  "map_option (\<lambda>s. (inflightPages (eng s), map snd (passes s)))
     (exec trace_getPage_fails initial_system) = Some ({1}, [InRenderOne 1 1 [2, 3] Thrown]) \<and>
   map_option (\<lambda>s. (inflightPages (eng s), map snd (passes s)))
     (exec trace_getViewport_fails initial_system) = Some ({1}, [InRenderOne 1 1 [2, 3] Thrown])"
  by code_simp

text \<open>
  C4, where the code falls short. After the rejected request for page 1 the exception
  leaves \<open>renderWindow\<close> as well: the pass is over, no raster was ever started, pages 2 and
  3 were not attempted. Page 1 is not in \<open>renderedPages\<close>, but it is still in
  \<open>inflightPages\<close>: the next pass, which wants pages 1 to 3, returns from \<open>renderOne\<close> for
  page 1 at once, and when it has rendered pages 2 and 3 and ended, page 1 is still not
  rendered and still marked in flight.
\<close>

theorem getPage_rejection_aborts_pass:
  "map_option (\<lambda>s. (renderedPages (eng s), inflightPages (eng s), map snd (passes s),
                     nextTaskId (eng s)))
     (exec trace_pass_aborted initial_system)
   = Some ({}, {1}, [PassThrown, InRenderOne 2 1 [2, 3] Returned], 0) \<and>
   map_option (\<lambda>s. (renderedPages (eng s), inflightPages (eng s), map snd (passes s)))
     (exec trace_second_pass initial_system)
   = Some ({2, 3}, {1}, [PassThrown, PassReturned])"
  by code_simp

subsection \<open>Generations\<close>

text \<open>
  The changeover itself does what it should: when the render effect runs with a key that
  differs from the stored one, both sets are empty afterwards and the new key is stored;
  no pass of the new run has started by then, since the effect only arms the timer. An
  attached canvas that has a 2D context comes out of the changeover blank and tagged with
  the new key.
\<close>

lemma renderEffect_changeover:
  assumes "renderEffect pr True (Some sz) n z narrow dpr e = (Some r, e')"
    and "lastSizeKeyRef e \<noteq> Some (currentSizeKey sz z)"
  shows "renderedPages e' = {} \<and> inflightPages e' = {} \<and>
         lastSizeKeyRef e' = Some (currentSizeKey sz z) \<and>
         run_sizeKey r = currentSizeKey sz z"
  using assms
  by (auto simp: renderEffect_def Let_def split: if_splits)

lemma changeover_loop_length [simp]:
  "length (canvasHeap (changeover_loop key e ref)) = length (canvasHeap e)"
  by (simp add: changeover_loop_def canvas_set_def split: option.splits)

lemma changeover_loop_has2d [simp]:
  "has2d (canvas_get (changeover_loop key e ref) c) = has2d (canvas_get e c)"
  by (auto simp: changeover_loop_def canvas_set_def canvas_get_def changeover_canvas_def
        nth_list_update Let_def split: option.splits if_splits)

lemma changeover_loop_keeps_blank:
  "blanked key (canvas_get e c) \<Longrightarrow> blanked key (canvas_get (changeover_loop key e ref) c)"
  by (auto simp: blanked_def changeover_loop_def canvas_set_def canvas_get_def changeover_canvas_def
        nth_list_update Let_def split: option.splits if_splits)

lemma changeover_loop_blanks:
  "c < length (canvasHeap e) \<Longrightarrow> has2d (canvas_get e c) \<Longrightarrow>
     blanked key (canvas_get (changeover_loop key e (Some c)) c)"
  by (simp add: blanked_def changeover_loop_def canvas_set_def canvas_get_def changeover_canvas_def
        Let_def)

lemma foldl_changeover_loop_keeps_blank:
  "blanked key (canvas_get e c) \<Longrightarrow> blanked key (canvas_get (foldl (changeover_loop key) e refs) c)"
  by (induction refs arbitrary: e) (simp_all add: changeover_loop_keeps_blank)

lemma foldl_changeover_loop_blanks:
  "Some c \<in> set refs \<Longrightarrow> c < length (canvasHeap e) \<Longrightarrow> has2d (canvas_get e c) \<Longrightarrow>
     blanked key (canvas_get (foldl (changeover_loop key) e refs) c)"
proof (induction refs arbitrary: e)
  case Nil
  then show ?case by simp
next
  case (Cons ref refs)
  show ?case
  proof (cases "ref = Some c")
    case True
    have "blanked key (canvas_get (changeover_loop key e ref) c)"
      unfolding True by (rule changeover_loop_blanks [OF Cons.prems(2,3)])
    then show ?thesis by (simp add: foldl_changeover_loop_keeps_blank)
  next
    case False
    with Cons.prems(1) have "Some c \<in> set refs" by simp
    then have "blanked key (canvas_get (foldl (changeover_loop key) (changeover_loop key e ref) refs) c)"
      by (rule Cons.IH) (simp_all add: Cons.prems)
    then show ?thesis by simp
  qed
qed

lemma changeover_blanks_attached:
  assumes "Some c \<in> set (canvasRefs e)" and "c < length (canvasHeap e)"
    and "has2d (canvas_get e c)"
  shows "blanked key (canvas_get (changeover key e) c)"
  unfolding changeover_def
  by (rule foldl_changeover_loop_blanks) (use assms in \<open>simp_all add: canvas_get_def\<close>)

lemma renderEffect_blanks_attached:
  assumes "renderEffect pr True (Some sz) n z narrow dpr e = (Some r, e')"
    and "lastSizeKeyRef e \<noteq> Some (currentSizeKey sz z)"
    and "Some c \<in> set (canvasRefs e)" and "c < length (canvasHeap e)"
    and "has2d (canvas_get e c)"
  shows "blanked (currentSizeKey sz z) (canvas_get e' c)"
proof -
  let ?e1 = "e\<lparr>renderLoopIdRef := renderLoopIdRef e + 1,
                renderTasks := (renderTasks e)(renderLoopIdRef e + 1 := replicate (nat n) None)\<rparr>"
  from assms(1,2) have "e' = changeover (currentSizeKey sz z) ?e1"
    by (auto simp: renderEffect_def Let_def split: if_splits)
  moreover have "blanked (currentSizeKey sz z) (canvas_get (changeover (currentSizeKey sz z) ?e1) c)"
    by (rule changeover_blanks_attached) (use assms(3,4,5) in \<open>simp_all add: canvas_get_def\<close>)
  ultimately show ?thesis by simp
qed

lemma renderEffect_same_key:
  assumes "renderEffect pr True (Some sz) n z narrow dpr e = (Some r, e')"
    and "lastSizeKeyRef e = Some (currentSizeKey sz z)"
  shows "renderedPages e' = renderedPages e \<and> inflightPages e' = inflightPages e \<and>
         canvasHeap e' = canvasHeap e"
  using assms
  by (auto simp: renderEffect_def Let_def split: if_splits)

text \<open>
  C1, where the code falls short. After \<^verbatim>\<open>await task.promise\<close> the page is added to
  \<open>renderedPages\<close> with no look at \<open>cancelled\<close> or the loop id, unlike after the other two
  \<open>await\<close>s; what keeps a raster of an old generation from landing in the set of the new
  one is only that the clean-up cancels the tasks in \<open>renderTasks\<close>, which holds one task
  per page. In the sample execution a task of the second generation is no longer in
  \<open>renderTasks\<close> when the third generation begins, and is still running. After the
  changeover to the third generation both sets are empty; then the task completes, and
  page 1 is in \<open>renderedPages\<close> under the third key while the canvas attached to page 1 is
  blank (the raster, made for the second key, went to the canvas that was attached then).
  The pass of the third generation skips page 1 and goes on to page 2.
\<close>

theorem stale_raster_enters_new_generation:
  "map_option (\<lambda>s. (lastSizeKeyRef (eng s), renderedPages (eng s), inflightPages (eng s),
                     renderTasks (eng s) 2, taskState (eng s) 0))
     (exec trace_third_generation initial_system)
     = Some (Some (480, 679, 100), {}, {}, [Some 1, None], TaskRunning) \<and>
   map_option (\<lambda>s. (lastSizeKeyRef (eng s), renderedPages (eng s), surface_of (eng s) 1,
                     shown (canvas_get (eng s) 2)))
     (exec trace_stale initial_system)
     = Some (Some (480, 679, 100), {1}, Some Blank, Painted 1 (440, 622, 100)) \<and>
   map_option (\<lambda>s. (lastSizeKeyRef (eng s), renderedPages (eng s), inflightPages (eng s),
                     surface_of (eng s) 1, snd (last (passes s))))
     (exec trace_stale_next_pass initial_system)
     = Some (Some (480, 679, 100), {1}, {2}, Some Blank,
             InRenderOne 2 2 [] (AwaitCanvas (Some 5)))"
  by code_simp

text \<open>
  The desktop readers lose the invariant in a second way, with no generation change at
  all. Widening the container from 760 to 800 pixels at a height of 600 leaves the page
  box, and so the generation key, as it was, but changes the key of the flip widget;
  React mounts new canvases, the render effect finds the stored key unchanged and keeps
  \<open>renderedPages\<close>, and the next pass skips page 1, whose new canvas stays blank. The
  key of the touch reader's widget is made of the same parts as the generation key.
\<close>

lemma desktop_remount_keeps_rendered:
  "targetPageSize_desktop 760 600 (Some a4_ratio) 1 = targetPageSize_desktop 800 600 (Some a4_ratio) 1 \<and>
   flipbookKey_desktop (targetPageSize_desktop 760 600 (Some a4_ratio) 1) (isNarrow_desktop 760)
     \<noteq> flipbookKey_desktop (targetPageSize_desktop 800 600 (Some a4_ratio) 1) (isNarrow_desktop 800) \<and>
   map_option (\<lambda>s. (lastSizeKeyRef (eng s), renderedPages (eng s), surface_of (eng s) 1))
     (exec (take 7 trace_remount) initial_system)
     = Some (Some (342, 484, 100), {1}, Some (Painted 1 (342, 484, 100))) \<and>
   map_option (\<lambda>s. (lastSizeKeyRef (eng s), renderedPages (eng s), surface_of (eng s) 1,
                     snd (last (passes s))))
     (exec trace_remount initial_system)
     = Some (Some (342, 484, 100), {1}, Some Blank, PassReturned)"
  by code_simp

lemma mobile_widget_key_is_generation_key:
  "flipbookKey_mobile (Some sz) z = flipbookKey_mobile (Some sz') z'
     \<longleftrightarrow> currentSizeKey sz z = currentSizeKey sz' z'"
  by (auto simp: flipbookKey_mobile_def sizeKey_def currentSizeKey_def split: prod.splits)

end
